theory Spec2Isabelle
  imports Complex_Main
begin

section \<open>JavaScript values met by the recognition service\<close>

text \<open>
  \<^verbatim>\<open>JSON.parse\<close> returns an untyped value; the annotation \<^verbatim>\<open>BreedInfo\<close> on
  its result is erased at run time. The decoded response is therefore modelled as a JSON
  value. An object keeps its members in source order; a repeated key reads as its last
  occurrence, as \<^verbatim>\<open>JSON.parse\<close> builds it. \<open>JNum\<close> carries the value of the parsed
  double; the service never computes with it. A literal that overflows to
  \<^verbatim>\<open>Infinity\<close> is outside the model.
\<close>

datatype json =
    JNull
  | JBool bool
  | JNum real
  | JStr string
  | JArr "json list"
  | JObj "(string \<times> json) list"

text \<open>
  A thrown value: an instance of \<^verbatim>\<open>Error\<close> with its \<^verbatim>\<open>message\<close>, or anything
  else (\<^verbatim>\<open>error instanceof Error\<close> is false).
\<close>

datatype thrown = ErrorInstance string | NonError

text \<open>
  Reading a property of a decoded value that is not \<^verbatim>\<open>null\<close>: a member of an object,
  \<^verbatim>\<open>undefined\<close> (\<open>None\<close>) when the object has no such member or the value is a
  primitive or an array (none of their prototypes defines \<^verbatim>\<open>error\<close>, \<^verbatim>\<open>breed\<close>,
  \<^verbatim>\<open>description\<close> or \<^verbatim>\<open>confidence\<close>).
\<close>

fun field :: "json \<Rightarrow> string \<Rightarrow> json option" where
  "field (JObj members) k = map_of (rev members) k"
| "field _ k = None"

text \<open>JavaScript truthiness, as the conditions \<^verbatim>\<open>if (result.error)\<close> and
  \<^verbatim>\<open>if (!result.breed)\<close> use it.\<close>

fun truthy :: "json option \<Rightarrow> bool" where
  "truthy None = False"
| "truthy (Some JNull) = False"
| "truthy (Some (JBool b)) = b"
| "truthy (Some (JNum n)) = (n \<noteq> 0)"
| "truthy (Some (JStr s)) = (s \<noteq> [])"
| "truthy (Some (JArr xs)) = True"
| "truthy (Some (JObj members)) = True"

section \<open>The request sent to the model\<close>

record inlineData =
  data :: string
  mimeType :: string

datatype part = TextPart string | ImagePart inlineData

datatype schema_type = OBJECT | STRING | NUMBER

text \<open>The response schema: an object type and its properties; the source lists no
  required property. The properties' description texts are left out.\<close>

record schema =
  schema_type :: schema_type
  properties :: "(string \<times> schema_type) list"

record config =
  responseMimeType :: string
  responseSchema :: schema

record request =
  model :: string
  contents_parts :: "part list"
  request_config :: config

text \<open>
  A call of the SDK's content generation: \<^verbatim>\<open>ai.models.generateContent\<close>, which
  resolves to one whole response, or \<^verbatim>\<open>ai.models.generateContentStream\<close>, which
  yields the response in chunks.
\<close>

datatype api_call = GenerateContent request | GenerateContentStream request

text \<open>What the awaited call resolves to: \<^verbatim>\<open>response.text\<close> is a string or
  \<^verbatim>\<open>undefined\<close>.\<close>

record response =
  response_text :: "string option"

record client =
  apiKey :: string

section \<open>The runtime the service runs on\<close>

text \<open>
  The library calls of the source are parameters: the outcome of the awaited
  \<^verbatim>\<open>ai.models.generateContent\<close> (it may depend on the calls issued before),
  \<^verbatim>\<open>String.prototype.trim\<close>, \<^verbatim>\<open>JSON.parse\<close>, and the engine's message for a
  \<^verbatim>\<open>TypeError\<close> raised by reading the named property of \<^verbatim>\<open>undefined\<close> or
  \<^verbatim>\<open>null\<close>.
\<close>

record runtime =
  generateContent :: "client \<Rightarrow> api_call list \<Rightarrow> request \<Rightarrow> thrown + response"
  trim :: "string \<Rightarrow> string"
  JSON_parse :: "string \<Rightarrow> thrown + json"
  typeErrorMessage :: "string \<Rightarrow> string"

text \<open>The effects a call leaves behind: the calls made to the SDK, in order, and the
  entries written with \<^verbatim>\<open>console.error\<close>.\<close>

record world =
  calls :: "api_call list"
  console :: "(string \<times> thrown) list"

section \<open>Module initialisation\<close>

definition API_KEY :: "(string \<rightharpoonup> string) \<Rightarrow> string option" where
  "API_KEY env = env ''API_KEY''"

text \<open>\<^verbatim>\<open>if (!API_KEY) throw new Error(...)\<close>: an absent and an empty credential are
  both falsy.\<close>

definition module_init :: "(string \<rightharpoonup> string) \<Rightarrow> thrown + client" where
  "module_init env =
     (case API_KEY env of
        None \<Rightarrow> Inl (ErrorInstance ''API_KEY environment variable is not set.'')
      | Some k \<Rightarrow>
          if k = [] then Inl (ErrorInstance ''API_KEY environment variable is not set.'')
          else Inr \<lparr>apiKey = k\<rparr>)"

definition model_name :: string where
  "model_name = ''gemini-2.5-flash''"

definition breedInfoSchema :: schema where
  "breedInfoSchema =
     \<lparr>schema_type = OBJECT,
      properties = [(''breed'', STRING), (''description'', STRING),
                    (''confidence'', NUMBER), (''error'', STRING)]\<rparr>"

section \<open>recognizeCowBreed\<close>

definition prompt :: string where
  "prompt = ''Analyze the image of this cow. Focus on its features like coloration, body structure, and head shape to identify its breed. Provide the places where this breed popularly found. If the image does not clearly show a cow, please indicate that. Provide a confidence score for your identification.''"

definition build_request :: "string \<Rightarrow> string \<Rightarrow> request" where
  "build_request imageBase64 mime =
     (let imagePart = ImagePart \<lparr>data = imageBase64, mimeType = mime\<rparr>;
          textPart = TextPart prompt
      in \<lparr>model = model_name,
          contents_parts = [textPart, imagePart],
          request_config =
            \<lparr>responseMimeType = ''application/json'',
             responseSchema = breedInfoSchema\<rparr>\<rparr>)"

text \<open>The failure arm \<^verbatim>\<open>{ error: ... }\<close>.\<close>

definition failure :: "json \<Rightarrow> json" where
  "failure e = JObj [(''error'', e)]"

definition fallback_message :: string where
  "fallback_message = ''Could not determine the breed. The image may not contain a cow.''"

definition unexpected_message :: string where
  "unexpected_message = ''An unexpected error occurred during breed recognition.''"

text \<open>
  Lines 68 to 76: the checks on the decoded value. Reading \<^verbatim>\<open>result.error\<close> of
  \<^verbatim>\<open>null\<close> throws a \<^verbatim>\<open>TypeError\<close>.
\<close>

definition validate :: "runtime \<Rightarrow> json \<Rightarrow> thrown + json" where
  "validate rt result =
     (if result = JNull then Inl (ErrorInstance (typeErrorMessage rt ''error''))
      else if truthy (field result ''error'') then
        (case field result ''error'' of
           Some e \<Rightarrow> Inr (failure e)
         | None \<Rightarrow> Inr (failure JNull) \<comment> \<open>never taken: \<^verbatim>\<open>undefined\<close> is not truthy\<close>)
      else if \<not> truthy (field result ''breed'') then
        Inr (failure (JStr fallback_message))
      else Inr result)"

text \<open>
  Lines 56 to 63, \<^verbatim>\<open>await ai.models.generateContent({...})\<close>: the call is made, which
  enters it in the log, and the function goes on with the call's outcome, a response or
  what the call rejected with.
\<close>

definition call_generateContent ::
  "runtime \<Rightarrow> client \<Rightarrow> world \<Rightarrow> request \<Rightarrow> (thrown + response) \<times> world" where
  "call_generateContent rt ai w req =
     (generateContent rt ai (calls w) req, w\<lparr>calls := calls w @ [GenerateContent req]\<rparr>)"

text \<open>Lines 65 and 66 after the await: a rejection is thrown on; otherwise
  \<^verbatim>\<open>response.text.trim()\<close> and \<^verbatim>\<open>JSON.parse\<close>, each of which may throw.\<close>

definition parse_response :: "runtime \<Rightarrow> thrown + response \<Rightarrow> thrown + json" where
  "parse_response rt outcome =
     (case outcome of
        Inl e \<Rightarrow> Inl e
      | Inr resp \<Rightarrow>
          (case response_text resp of
             None \<Rightarrow> Inl (ErrorInstance (typeErrorMessage rt ''trim''))
           | Some t \<Rightarrow> JSON_parse rt (trim rt t)))"

text \<open>The rest of the \<^verbatim>\<open>try\<close> block once the awaited call has settled.\<close>

definition try_after_await :: "runtime \<Rightarrow> thrown + response \<Rightarrow> thrown + json" where
  "try_after_await rt outcome =
     (case parse_response rt outcome of
        Inl e \<Rightarrow> Inl e
      | Inr result \<Rightarrow> validate rt result)"

text \<open>The decoded response: what \<^verbatim>\<open>JSON.parse\<close> returns for the call made in the
  world \<open>w\<close>.\<close>

definition decode :: "runtime \<Rightarrow> client \<Rightarrow> world \<Rightarrow> request \<Rightarrow> thrown + json" where
  "decode rt ai w req = parse_response rt (fst (call_generateContent rt ai w req))"

text \<open>The body of the \<^verbatim>\<open>try\<close> block: the request is built, the call is made and
  awaited, and the outcome is decoded and checked.\<close>

definition try_block ::
  "runtime \<Rightarrow> client \<Rightarrow> world \<Rightarrow> string \<Rightarrow> string \<Rightarrow> (thrown + json) \<times> world" where
  "try_block rt ai w imageBase64 mime =
     (let req = build_request imageBase64 mime
      in (case call_generateContent rt ai w req of
            (outcome, w') \<Rightarrow> (try_after_await rt outcome, w')))"

text \<open>The \<^verbatim>\<open>catch\<close> block: a log entry, then the failure arm.\<close>

definition catch_block :: "thrown \<Rightarrow> world \<Rightarrow> (thrown + json) \<times> world" where
  "catch_block err w =
     (let w' = w\<lparr>console := console w @ [(''Error calling Gemini API:'', err)]\<rparr>
      in (case err of
            ErrorInstance msg \<Rightarrow> (Inr (failure (JStr (''API Error: '' @ msg))), w')
          | NonError \<Rightarrow> (Inr (failure (JStr unexpected_message)), w')))"

text \<open>
  The promise \<^verbatim>\<open>recognizeCowBreed\<close> returns settles as rejected (\<open>Inl\<close>) or
  fulfilled (\<open>Inr\<close>).
\<close>

definition recognizeCowBreed ::
  "runtime \<Rightarrow> client \<Rightarrow> world \<Rightarrow> string \<Rightarrow> string \<Rightarrow> (thrown + json) \<times> world" where
  "recognizeCowBreed rt ai w imageBase64 mime =
     (case try_block rt ai w imageBase64 mime of
        (Inl err, w') \<Rightarrow> catch_block err w'
      | (Inr result, w') \<Rightarrow> (Inr result, w'))"

text \<open>A process that loads the module and then calls its export: when the module's
  initialisation throws, the import fails and the export is never reached.\<close>

definition load_and_recognize ::
  "(string \<rightharpoonup> string) \<Rightarrow> runtime \<Rightarrow> world \<Rightarrow> string \<Rightarrow> string \<Rightarrow> (thrown + json) \<times> world" where
  "load_and_recognize env rt w imageBase64 mime =
     (case module_init env of
        Inl e \<Rightarrow> (Inl e, w)
      | Inr ai \<Rightarrow> recognizeCowBreed rt ai w imageBase64 mime)"

section \<open>The application shell\<close>

text \<open>A \<^verbatim>\<open>File\<close>: the shell reads only its \<^verbatim>\<open>type\<close>.\<close>

record File =
  fileName :: string
  fileType :: string

text \<open>
  The five state variables of \<^verbatim>\<open>App\<close>, and the asynchronous work the component has
  started and that has not finished: the \<^verbatim>\<open>FileReader\<close> loads (each with the file
  its handlers captured) and the calls of \<^verbatim>\<open>recognizeCowBreed\<close> awaited in an
  \<^verbatim>\<open>onload\<close> handler (each with its arguments). \<^verbatim>\<open>error\<close> holds whatever was
  passed to \<^verbatim>\<open>setError\<close>.
\<close>

record session =
  imageFile :: "File option"
  imageUrl :: "string option"
  breedInfo :: "json option"
  isLoading :: bool
  error :: "json option"
  readers :: "File list"
  invocations :: "(string option \<times> string) list"

definition initial :: session where
  "initial =
     \<lparr>imageFile = None, imageUrl = None, breedInfo = None, isLoading = False,
      error = None, readers = [], invocations = []\<rparr>"

text \<open>\<^verbatim>\<open>createObjectURL\<close> is the browser's \<^verbatim>\<open>URL.createObjectURL\<close>.\<close>

definition handleImageChange :: "(File \<Rightarrow> string) \<Rightarrow> File option \<Rightarrow> session \<Rightarrow> session" where
  "handleImageChange createObjectURL f s =
     (case f of
        Some fl \<Rightarrow>
          s\<lparr>imageFile := Some fl, imageUrl := Some (createObjectURL fl),
            breedInfo := None, error := None\<rparr>
      | None \<Rightarrow> s)"

text \<open>
  \<^verbatim>\<open>handleRecognize\<close> up to the point where the reader's handlers are installed.
  \<open>fault\<close> is what creating the reader or \<^verbatim>\<open>readAsDataURL\<close> throws, if anything.
\<close>

definition handleRecognize :: "thrown option \<Rightarrow> session \<Rightarrow> session" where
  "handleRecognize fault s =
     (case imageFile s of
        None \<Rightarrow> s\<lparr>error := Some (JStr ''Please upload an image first.'')\<rparr>
      | Some fl \<Rightarrow>
          (let s1 = s\<lparr>isLoading := True, error := None, breedInfo := None\<rparr>
           in (case fault of
                 None \<Rightarrow> s1\<lparr>readers := readers s1 @ [fl]\<rparr>
               | Some (ErrorInstance msg) \<Rightarrow> s1\<lparr>error := Some (JStr msg), isLoading := False\<rparr>
               | Some NonError \<Rightarrow>
                   s1\<lparr>error := Some (JStr ''An unknown error occurred.''), isLoading := False\<rparr>)))"

definition handleReset :: "session \<Rightarrow> session" where
  "handleReset s =
     s\<lparr>imageFile := None, imageUrl := None, breedInfo := None, error := None,
       isLoading := False\<rparr>"

text \<open>\<^verbatim>\<open>str.split(',')\<close> and its element 1, \<^verbatim>\<open>undefined\<close> when there is no comma.\<close>

fun split_comma :: "string \<Rightarrow> string list" where
  "split_comma [] = [[]]"
| "split_comma (c # cs) =
     (if c = CHR '','' then [] # split_comma cs
      else (case split_comma cs of
              [] \<Rightarrow> [[c]]
            | p # ps \<Rightarrow> (c # p) # ps))"

definition base64_of :: "string \<Rightarrow> string option" where
  "base64_of dataUrl =
     (case split_comma dataUrl of
        _ # b # _ \<Rightarrow> Some b
      | _ \<Rightarrow> None)"

definition remove_nth :: "nat \<Rightarrow> 'a list \<Rightarrow> 'a list" where
  "remove_nth i xs = take i xs @ drop (Suc i) xs"

text \<open>\<^verbatim>\<open>reader.onload\<close> up to its \<^verbatim>\<open>await\<close>: the adapter is invoked.\<close>

definition reader_onload :: "nat \<Rightarrow> string \<Rightarrow> session \<Rightarrow> session" where
  "reader_onload i dataUrl s =
     (if i < length (readers s) then
        s\<lparr>readers := remove_nth i (readers s),
          invocations := invocations s @ [(base64_of dataUrl, fileType (readers s ! i))]\<rparr>
      else s)"

text \<open>
  \<^verbatim>\<open>reader.onload\<close> after its \<^verbatim>\<open>await\<close>, with the adapter's result. Reading
  \<^verbatim>\<open>result.error\<close> of \<^verbatim>\<open>null\<close> throws inside the handler, and no setter runs.
\<close>

definition reader_onload_resume :: "nat \<Rightarrow> json \<Rightarrow> session \<Rightarrow> session" where
  "reader_onload_resume i result s =
     (if i < length (invocations s) then
        (let s1 = s\<lparr>invocations := remove_nth i (invocations s)\<rparr>
         in if result = JNull then s1
            else if truthy (field result ''error'') then
              s1\<lparr>error := field result ''error'', isLoading := False\<rparr>
            else s1\<lparr>breedInfo := Some result, isLoading := False\<rparr>)
      else s)"

definition reader_onerror :: "nat \<Rightarrow> session \<Rightarrow> session" where
  "reader_onerror i s =
     (if i < length (readers s) then
        s\<lparr>readers := remove_nth i (readers s),
          error := Some (JStr ''Failed to read the image file.''), isLoading := False\<rparr>
      else s)"

text \<open>What the rendered page allows: the attribute
  \<^verbatim>\<open>disabled={!imageFile || isLoading}\<close> of the recognize button, and the clear
  button rendered under \<^verbatim>\<open>imageUrl &&\<close>.\<close>

definition recognize_disabled :: "session \<Rightarrow> bool" where
  "recognize_disabled s = (imageFile s = None \<or> isLoading s)"

definition clear_shown :: "session \<Rightarrow> bool" where
  "clear_shown s = (case imageUrl s of None \<Rightarrow> False | Some u \<Rightarrow> u \<noteq> [])"

text \<open>The events of a session: what the user does and what the browser delivers.\<close>

datatype event =
    ImageChange "File option"
  | ClickRecognize "thrown option"
  | ClickClear
  | ReaderLoaded nat string
  | ReaderFailed nat
  | RecognizeSettled nat json

fun fire :: "(File \<Rightarrow> string) \<Rightarrow> session \<Rightarrow> event \<Rightarrow> session" where
  "fire url s (ImageChange f) = handleImageChange url f s"
| "fire url s (ClickRecognize fault) =
     (if recognize_disabled s then s else handleRecognize fault s)"
| "fire url s ClickClear = (if clear_shown s then handleReset s else s)"
| "fire url s (ReaderLoaded i dataUrl) = reader_onload i dataUrl s"
| "fire url s (ReaderFailed i) = reader_onerror i s"
| "fire url s (RecognizeSettled i result) = reader_onload_resume i result s"

definition run :: "(File \<Rightarrow> string) \<Rightarrow> event list \<Rightarrow> session \<Rightarrow> session" where
  "run url events s = foldl (fire url) s events"

text \<open>The number of recognitions under way: reads started and adapter calls not yet
  settled.\<close>

definition outstanding :: "session \<Rightarrow> nat" where
  "outstanding s = length (readers s) + length (invocations s)"

text \<open>At most one recognition is under way, and the busy flag is set while one is.\<close>

definition gated :: "session \<Rightarrow> bool" where
  "gated s = (outstanding s \<le> 1 \<and> (isLoading s \<or> outstanding s = 0))"

section \<open>Sample inputs\<close>

definition sample_client :: client where
  "sample_client = \<lparr>apiKey = ''k''\<rparr>"

definition empty_world :: world where
  "empty_world = \<lparr>calls = [], console = []\<rparr>"

text \<open>A runtime whose service answers with the text \<open>t\<close>, which decodes to \<open>d\<close>.\<close>

definition answering :: "string \<Rightarrow> json \<Rightarrow> runtime" where
  "answering t d =
     \<lparr>generateContent = (\<lambda>ai issued req. Inr \<lparr>response_text = Some t\<rparr>),
      trim = (\<lambda>x. x),
      JSON_parse = (\<lambda>x. if x = t then Inr d else Inl (ErrorInstance ''Unexpected token'')),
      typeErrorMessage = (\<lambda>p. ''Cannot read properties of null'')\<rparr>"

text \<open>A runtime whose service call rejects with \<open>e\<close>.\<close>

definition rejecting :: "thrown \<Rightarrow> runtime" where
  "rejecting e =
     \<lparr>generateContent = (\<lambda>ai issued req. Inl e),
      trim = (\<lambda>x. x),
      JSON_parse = (\<lambda>x. Inl (ErrorInstance ''Unexpected token'')),
      typeErrorMessage = (\<lambda>p. ''Cannot read properties of null'')\<rparr>"


definition holstein :: json where
  "holstein =
     JObj [(''breed'', JStr ''Holstein Friesian''), (''description'', JStr ''Dairy breed.''),
           (''confidence'', JNum 1.5)]"

definition no_cow :: json where
  "no_cow =
     JObj [(''breed'', JStr ''Angus''), (''confidence'', JNum 0.3),
           (''error'', JStr ''No cow was detected in the provided image.'')]"

definition blank :: json where
  "blank = JObj [(''breed'', JStr []), (''confidence'', JNum 0.9)]"

definition cow_png :: File where
  "cow_png = \<lparr>fileName = ''cow.png'', fileType = ''image/png''\<rparr>"

definition calf_jpg :: File where
  "calf_jpg = \<lparr>fileName = ''calf.jpg'', fileType = ''image/jpeg''\<rparr>"

definition blob_url :: "File \<Rightarrow> string" where
  "blob_url f = ''blob:'' @ fileName f"

section \<open>The outcome of recognizeCowBreed\<close>

lemma recognize_of_decode:
  "decode rt ai w (build_request img mime) = Inr d \<Longrightarrow> validate rt d = Inr r \<Longrightarrow>
   fst (recognizeCowBreed rt ai w img mime) = Inr r"
  by (simp add: recognizeCowBreed_def try_block_def try_after_await_def decode_def
      call_generateContent_def Let_def)

lemma recognize_of_fault:
  "fst (try_block rt ai w img mime) = Inl err \<Longrightarrow>
   fst (recognizeCowBreed rt ai w img mime) =
     fst (catch_block err (snd (try_block rt ai w img mime)))"
  by (cases "try_block rt ai w img mime") (simp add: recognizeCowBreed_def)

lemma recognize_of_value:
  "fst (try_block rt ai w img mime) = Inr r \<Longrightarrow>
   fst (recognizeCowBreed rt ai w img mime) = Inr r"
  by (cases "try_block rt ai w img mime") (simp add: recognizeCowBreed_def)

lemma catch_block_ErrorInstance:
  "fst (catch_block (ErrorInstance msg) w) = Inr (failure (JStr (''API Error: '' @ msg)))"
  by (simp add: catch_block_def Let_def)

lemma catch_block_NonError:
  "fst (catch_block NonError w) = Inr (failure (JStr unexpected_message))"
  by (simp add: catch_block_def Let_def)

lemma catch_block_fulfils:
  "\<exists>m. m \<noteq> [] \<and> fst (catch_block err w) = Inr (failure (JStr m))"
proof (cases err)
  case (ErrorInstance msg)
  have "''API Error: '' @ msg \<noteq> []" by simp
  with ErrorInstance show ?thesis
    using catch_block_ErrorInstance [of msg w] by blast
next
  case NonError
  have "unexpected_message \<noteq> []" by (simp add: unexpected_message_def)
  with NonError show ?thesis
    using catch_block_NonError [of w] by blast
qed

text \<open>The \<^verbatim>\<open>try\<close> block either throws, or decodes a value that passes the checks.\<close>

lemma try_block_cases:
  obtains (fault) err where "fst (try_block rt ai w img mime) = Inl err"
  | (val) d r where "decode rt ai w (build_request img mime) = Inr d" "validate rt d = Inr r"
      "fst (try_block rt ai w img mime) = Inr r"
proof (cases "fst (try_block rt ai w img mime)")
  case (Inl a)
  then show ?thesis by (rule fault)
next
  case (Inr r)
  then show ?thesis
    by (cases "decode rt ai w (build_request img mime)")
      (auto simp: try_block_def try_after_await_def decode_def call_generateContent_def
        Let_def intro: val)
qed

lemma recognize_fulfils:
  "\<exists>r. fst (recognizeCowBreed rt ai w img mime) = Inr r"
proof (cases "fst (try_block rt ai w img mime)")
  case (Inl err)
  then show ?thesis
    using catch_block_fulfils [of err "snd (try_block rt ai w img mime)"]
    by (auto simp: recognize_of_fault)
next
  case (Inr r)
  then show ?thesis by (simp add: recognize_of_value)
qed

lemma validate_arms:
  "validate rt d = Inr r \<Longrightarrow> truthy (field r ''breed'') \<noteq> truthy (field r ''error'')"
  by (auto simp: validate_def failure_def fallback_message_def split: if_splits option.splits)

text \<open>An absent member and an empty string are both falsy; a string is truthy exactly
  when it is not empty.\<close>

lemma not_truthy_absent_or_empty:
  "v = None \<or> v = Some (JStr []) \<Longrightarrow> \<not> truthy v"
  by auto

text \<open>A decoded \<^verbatim>\<open>null\<close> takes the \<^verbatim>\<open>catch\<close> path: the property read throws.\<close>

lemma recognize_null:
  assumes "decode rt ai w (build_request img mime) = Inr JNull"
  shows "fst (recognizeCowBreed rt ai w img mime) =
           Inr (failure (JStr (''API Error: '' @ typeErrorMessage rt ''error'')))"
proof -
  from assms have "fst (try_block rt ai w img mime) =
      Inl (ErrorInstance (typeErrorMessage rt ''error''))"
    by (simp add: try_block_def try_after_await_def decode_def call_generateContent_def
        validate_def Let_def)
  then show ?thesis
    by (simp add: recognize_of_fault catch_block_ErrorInstance)
qed

subsection \<open>The sample runtimes\<close>

lemma decode_answering: "decode (answering t d) ai w req = Inr d"
  by (simp add: decode_def parse_response_def call_generateContent_def answering_def)

lemma try_block_rejecting:
  "fst (try_block (rejecting e) ai w img mime) = Inl e"
  by (simp add: try_block_def try_after_await_def parse_response_def
      call_generateContent_def rejecting_def Let_def)


subsection \<open>The three arms of the checks\<close>

text \<open>
  C1. When the decoded response has an \<^verbatim>\<open>error\<close> member that is a non-empty string,
  \<^verbatim>\<open>recognizeCowBreed\<close> returns the failure arm with exactly that string, whatever
  other members (\<^verbatim>\<open>breed\<close>, \<^verbatim>\<open>description\<close>, \<^verbatim>\<open>confidence\<close>) the response has.
\<close>

theorem recognize_error_field:
  assumes "decode rt ai w (build_request img mime) = Inr d"
      and "field d ''error'' = Some (JStr e)" and "e \<noteq> []"
  shows "fst (recognizeCowBreed rt ai w img mime) = Inr (failure (JStr e))"
proof -
  from assms(2) have "d \<noteq> JNull" by auto
  with assms(2,3) have "validate rt d = Inr (failure (JStr e))"
    by (simp add: validate_def)
  with assms(1) show ?thesis by (rule recognize_of_decode)
qed

theorem recognize_error_field_witness:
  "decode (answering ''reply'' no_cow) sample_client empty_world
      (build_request ''aGk='' ''image/png'') = Inr no_cow
   \<and> field no_cow ''error'' = Some (JStr ''No cow was detected in the provided image.'')
   \<and> field no_cow ''breed'' = Some (JStr ''Angus'')
   \<and> fst (recognizeCowBreed (answering ''reply'' no_cow) sample_client empty_world
            ''aGk='' ''image/png'')
       = Inr (failure (JStr ''No cow was detected in the provided image.''))"
  using recognize_error_field [of "answering ''reply'' no_cow" sample_client empty_world
      "''aGk=''" "''image/png''" no_cow "''No cow was detected in the provided image.''"]
  by (simp add: decode_answering no_cow_def)

text \<open>
  C2. A decoded \<^verbatim>\<open>null\<close> has no \<^verbatim>\<open>error\<close> and no \<^verbatim>\<open>breed\<close>, yet
  \<^verbatim>\<open>recognizeCowBreed\<close> does not return the fixed message for it: reading
  \<^verbatim>\<open>result.error\<close> throws, and the failure arm carries the \<^verbatim>\<open>TypeError\<close>'s
  message after \<^verbatim>\<open>API Error: \<close>.
\<close>

theorem recognize_fallback_null_counterexample:
  "decode (answering ''null'' JNull) sample_client empty_world
      (build_request ''aGk='' ''image/png'') = Inr JNull
   \<and> field JNull ''error'' = None
   \<and> field JNull ''breed'' = None
   \<and> fst (recognizeCowBreed (answering ''null'' JNull) sample_client empty_world
            ''aGk='' ''image/png'')
       = Inr (failure (JStr ''API Error: Cannot read properties of null''))
   \<and> fst (recognizeCowBreed (answering ''null'' JNull) sample_client empty_world
            ''aGk='' ''image/png'')
       \<noteq> Inr (failure (JStr ''Could not determine the breed. The image may not contain a cow.''))"
  using recognize_null [of "answering ''null'' JNull" sample_client empty_world
      "''aGk=''" "''image/png''"]
  by (simp add: decode_answering failure_def) (simp add: answering_def)

text \<open>
  C2, amended. When the decoded response is any value but \<^verbatim>\<open>null\<close> (an object, an
  array, a string, a number or a boolean) with no truthy \<^verbatim>\<open>error\<close> member (absent or
  the empty string) and no truthy \<^verbatim>\<open>breed\<close> member (absent or the empty string),
  \<^verbatim>\<open>recognizeCowBreed\<close> returns the failure arm with the fixed message that the breed
  could not be determined and the image may not contain a cow.
\<close>

theorem recognize_fallback:
  assumes "decode rt ai w (build_request img mime) = Inr d"
      and "d \<noteq> JNull"
      and "\<not> truthy (field d ''error'')"
      and "\<not> truthy (field d ''breed'')"
  shows "fst (recognizeCowBreed rt ai w img mime) =
           Inr (failure (JStr ''Could not determine the breed. The image may not contain a cow.''))"
proof -
  from assms(2,3,4) have "validate rt d = Inr (failure (JStr fallback_message))"
    by (simp add: validate_def)
  with assms(1) show ?thesis
    unfolding fallback_message_def by (rule recognize_of_decode)
qed

text \<open>An object whose \<^verbatim>\<open>breed\<close> is the empty string, and a decoded array.\<close>

theorem recognize_fallback_witness:
  "decode (answering ''reply'' blank) sample_client empty_world
      (build_request ''aGk='' ''image/png'') = Inr blank
   \<and> blank \<noteq> JNull
   \<and> field blank ''error'' = None
   \<and> field blank ''breed'' = Some (JStr [])
   \<and> fst (recognizeCowBreed (answering ''reply'' blank) sample_client empty_world
            ''aGk='' ''image/png'')
       = Inr (failure (JStr ''Could not determine the breed. The image may not contain a cow.''))
   \<and> fst (recognizeCowBreed (answering ''[]'' (JArr [])) sample_client empty_world
            ''aGk='' ''image/png'')
       = Inr (failure (JStr ''Could not determine the breed. The image may not contain a cow.''))"
  using recognize_fallback [of "answering ''reply'' blank" sample_client empty_world
      "''aGk=''" "''image/png''" blank]
    recognize_fallback [of "answering ''[]'' (JArr [])" sample_client empty_world
      "''aGk=''" "''image/png''" "JArr []"]
  by (simp add: decode_answering) (simp add: blank_def)

text \<open>
  C3. When the decoded response has a truthy \<^verbatim>\<open>breed\<close> (a non-empty string) and no
  truthy \<^verbatim>\<open>error\<close>, \<^verbatim>\<open>recognizeCowBreed\<close> returns the decoded object itself: its
  \<^verbatim>\<open>breed\<close>, \<^verbatim>\<open>description\<close> and \<^verbatim>\<open>confidence\<close> are the decoded values, with no
  clamping of the confidence and no change to the texts.
\<close>

theorem recognize_success:
  assumes "decode rt ai w (build_request img mime) = Inr d"
      and "\<not> truthy (field d ''error'')"
      and "truthy (field d ''breed'')"
  shows "\<exists>r. fst (recognizeCowBreed rt ai w img mime) = Inr r \<and> r = d
           \<and> field r ''breed'' = field d ''breed''
           \<and> field r ''description'' = field d ''description''
           \<and> field r ''confidence'' = field d ''confidence''"
proof -
  from assms(3) have "d \<noteq> JNull" by auto
  with assms(2,3) have "validate rt d = Inr d"
    by (simp add: validate_def)
  with assms(1) have "fst (recognizeCowBreed rt ai w img mime) = Inr d"
    by (rule recognize_of_decode)
  then show ?thesis by simp
qed

text \<open>The sample response carries the confidence 1.5, outside the range from 0 to 1.\<close>

theorem recognize_success_witness:
  "decode (answering ''reply'' holstein) sample_client empty_world
      (build_request ''aGk='' ''image/png'') = Inr holstein
   \<and> field holstein ''error'' = None
   \<and> field holstein ''breed'' = Some (JStr ''Holstein Friesian'')
   \<and> fst (recognizeCowBreed (answering ''reply'' holstein) sample_client empty_world
            ''aGk='' ''image/png'')
       = Inr holstein
   \<and> field holstein ''confidence'' = Some (JNum 1.5)"
  using recognize_success [of "answering ''reply'' holstein" sample_client empty_world
      "''aGk=''" "''image/png''" holstein]
  by (simp add: decode_answering holstein_def)

subsection \<open>Faults\<close>



text \<open>
  C5. An \<^verbatim>\<open>Error\<close> whose message is empty carries no description, yet the failure
  arm's text for it is the bare marker \<^verbatim>\<open>API Error: \<close> and not the generic message.
\<close>

theorem recognize_fault_message_counterexample:
  "fst (try_block (rejecting (ErrorInstance [])) sample_client empty_world
          ''aGk='' ''image/png'')
     = Inl (ErrorInstance [])
   \<and> fst (recognizeCowBreed (rejecting (ErrorInstance [])) sample_client empty_world
            ''aGk='' ''image/png'')
     = Inr (failure (JStr ''API Error: ''))
   \<and> fst (recognizeCowBreed (rejecting (ErrorInstance [])) sample_client empty_world
            ''aGk='' ''image/png'')
     \<noteq> Inr (failure (JStr ''An unexpected error occurred during breed recognition.''))"
  by (simp add: try_block_rejecting recognize_of_fault catch_block_ErrorInstance failure_def)

text \<open>
  C5, amended. When the value caught is an instance of \<^verbatim>\<open>Error\<close>, the failure arm's
  text is \<^verbatim>\<open>API Error: \<close> followed by its \<^verbatim>\<open>message\<close>, empty or not; when it is
  any other value, whatever it carries, the failure arm's text is the fixed generic
  message.
\<close>

theorem recognize_fault_message:
  "(fst (try_block rt ai w img mime) = Inl (ErrorInstance msg) \<longrightarrow>
      fst (recognizeCowBreed rt ai w img mime) = Inr (failure (JStr (''API Error: '' @ msg))))
   \<and> (fst (try_block rt ai w img mime) = Inl NonError \<longrightarrow>
      fst (recognizeCowBreed rt ai w img mime) =
        Inr (failure (JStr ''An unexpected error occurred during breed recognition.'')))"
  by (simp add: recognize_of_fault catch_block_ErrorInstance catch_block_NonError
      unexpected_message_def)

theorem recognize_fault_message_witness:
  "fst (try_block (rejecting (ErrorInstance ''fetch failed'')) sample_client empty_world
          ''aGk='' ''image/png'')
     = Inl (ErrorInstance ''fetch failed'')
   \<and> fst (recognizeCowBreed (rejecting (ErrorInstance ''fetch failed'')) sample_client
            empty_world ''aGk='' ''image/png'')
     = Inr (failure (JStr ''API Error: fetch failed''))
   \<and> fst (try_block (rejecting NonError) sample_client empty_world ''aGk='' ''image/png'')
     = Inl NonError
   \<and> fst (recognizeCowBreed (rejecting NonError) sample_client empty_world
            ''aGk='' ''image/png'')
     = Inr (failure (JStr ''An unexpected error occurred during breed recognition.''))"
  using recognize_fault_message [of "rejecting (ErrorInstance ''fetch failed'')" sample_client
      empty_world "''aGk=''" "''image/png''" "''fetch failed''"]
    recognize_fault_message [of "rejecting NonError" sample_client empty_world
      "''aGk=''" "''image/png''" "''fetch failed''"]
  by (simp add: try_block_rejecting)

subsection \<open>One arm\<close>

text \<open>
  C6. Every value \<^verbatim>\<open>recognizeCowBreed\<close> returns has exactly one arm populated: its
  \<^verbatim>\<open>breed\<close> is truthy (a non-empty breed) or its \<^verbatim>\<open>error\<close> is truthy (a non-empty
  error), never both and never neither.
\<close>

theorem recognize_one_arm:
  "\<exists>r. fst (recognizeCowBreed rt ai w img mime) = Inr r \<and>
        truthy (field r ''breed'') \<noteq> truthy (field r ''error'')"
proof (cases rule: try_block_cases [of rt ai w img mime])
  case (fault err)
  obtain m where "m \<noteq> []"
    and "fst (catch_block err (snd (try_block rt ai w img mime))) = Inr (failure (JStr m))"
    using catch_block_fulfils by blast
  with fault show ?thesis
    by (simp add: recognize_of_fault failure_def)
next
  case (val d r)
  from val(2) have "truthy (field r ''breed'') \<noteq> truthy (field r ''error'')"
    by (rule validate_arms)
  with val(3) show ?thesis by (simp add: recognize_of_value)
qed

subsection \<open>The credential\<close>

text \<open>
  C7. When the environment has no \<^verbatim>\<open>API_KEY\<close>, loading the module throws, so a process
  that loads it and calls \<^verbatim>\<open>recognizeCowBreed\<close> ends with that error before any call
  is made (the world is unchanged); and whenever the module loads, the call returns a
  value, so the missing credential is the only fault that reaches the caller.
\<close>

theorem missing_credential_fatal:
  "(env ''API_KEY'' = None \<longrightarrow>
      load_and_recognize env rt w img mime =
        (Inl (ErrorInstance ''API_KEY environment variable is not set.''), w))
   \<and> (\<forall>ai. module_init env = Inr ai \<longrightarrow>
        (\<exists>r. fst (load_and_recognize env rt w img mime) = Inr r))"
  by (simp add: load_and_recognize_def module_init_def API_KEY_def recognize_fulfils)

theorem missing_credential_fatal_witness:
  "Map.empty ''API_KEY'' = (None :: string option)
   \<and> load_and_recognize Map.empty (answering ''reply'' holstein) empty_world
        ''aGk='' ''image/png'' =
        (Inl (ErrorInstance ''API_KEY environment variable is not set.''), empty_world)
   \<and> module_init [''API_KEY'' \<mapsto> ''k''] = Inr sample_client
   \<and> (\<exists>r. fst (load_and_recognize [''API_KEY'' \<mapsto> ''k''] (answering ''reply'' holstein)
              empty_world ''aGk='' ''image/png'') = Inr r)"
  using missing_credential_fatal [of Map.empty "answering ''reply'' holstein" empty_world
      "''aGk=''" "''image/png''"]
    missing_credential_fatal [of "[''API_KEY'' \<mapsto> ''k'']" "answering ''reply'' holstein"
      empty_world "''aGk=''" "''image/png''"]
  by (simp add: module_init_def API_KEY_def sample_client_def)

subsection \<open>One call\<close>

lemma try_block_world:
  "snd (try_block rt ai w img mime) =
     snd (call_generateContent rt ai w (build_request img mime))"
  by (simp add: try_block_def Let_def split: prod.splits)

lemma try_block_outcome:
  "fst (try_block rt ai w img mime) =
     try_after_await rt (fst (call_generateContent rt ai w (build_request img mime)))"
  by (simp add: try_block_def Let_def split: prod.splits)

lemma catch_block_calls: "calls (snd (catch_block err w)) = calls w"
  by (cases err) (simp_all add: catch_block_def Let_def)

lemma recognize_world:
  "snd (recognizeCowBreed rt ai w img mime) =
     (case fst (try_block rt ai w img mime) of
        Inl err \<Rightarrow> snd (catch_block err (snd (try_block rt ai w img mime)))
      | Inr r \<Rightarrow> snd (try_block rt ai w img mime))"
  by (cases "try_block rt ai w img mime") (simp add: recognizeCowBreed_def split: sum.splits)

lemma recognize_value:
  "fst (recognizeCowBreed rt ai w img mime) =
     (case fst (try_block rt ai w img mime) of
        Inl err \<Rightarrow> fst (catch_block err (snd (try_block rt ai w img mime)))
      | Inr r \<Rightarrow> Inr r)"
  by (cases "try_block rt ai w img mime") (simp add: recognizeCowBreed_def split: sum.splits)

text \<open>
  C8. Each invocation of \<^verbatim>\<open>recognizeCowBreed\<close> makes exactly one call to the service,
  whatever the call's outcome: the log afterwards is the log before and one entry, the
  non-streaming \<^verbatim>\<open>generateContent\<close> call with the request built from the arguments.
  The value the caller receives is the one the code after the \<^verbatim>\<open>await\<close> computes
  from the outcome of that call, a response or a failure.
\<close>

theorem recognize_one_call:
  "calls (snd (recognizeCowBreed rt ai w img mime)) =
     calls w @ [GenerateContent (build_request img mime)]
   \<and> fst (recognizeCowBreed rt ai w img mime) =
     (case try_after_await rt (generateContent rt ai (calls w) (build_request img mime)) of
        Inl err \<Rightarrow>
          fst (catch_block err (w\<lparr>calls := calls w @ [GenerateContent (build_request img mime)]\<rparr>))
      | Inr r \<Rightarrow> Inr r)"
proof -
  have made: "call_generateContent rt ai w (build_request img mime) =
      (generateContent rt ai (calls w) (build_request img mime),
       w\<lparr>calls := calls w @ [GenerateContent (build_request img mime)]\<rparr>)"
    by (simp add: call_generateContent_def)
  have "calls (snd (recognizeCowBreed rt ai w img mime)) =
      calls w @ [GenerateContent (build_request img mime)]"
    by (simp add: recognize_world catch_block_calls try_block_world made split: sum.splits)
  moreover have "fst (recognizeCowBreed rt ai w img mime) =
      (case try_after_await rt (generateContent rt ai (calls w) (build_request img mime)) of
         Inl err \<Rightarrow>
           fst (catch_block err (w\<lparr>calls := calls w @ [GenerateContent (build_request img mime)]\<rparr>))
       | Inr r \<Rightarrow> Inr r)"
    by (simp add: recognize_value try_block_world try_block_outcome made split: sum.splits)
  ultimately show ?thesis by simp
qed

text \<open>A call that rejects is not made again, and a second invocation makes a second
  call.\<close>

lemma recognize_no_retry:
  "calls (snd (recognizeCowBreed (rejecting e) ai w img mime)) =
     calls w @ [GenerateContent (build_request img mime)]"
  by (simp add: recognize_world catch_block_calls try_block_world call_generateContent_def
      split: sum.splits)

section \<open>The shell\<close>

text \<open>
  C10. \<^verbatim>\<open>handleImageChange\<close> called with \<^verbatim>\<open>null\<close> leaves the whole state as it was;
  called with a file it stores the file and its object URL and clears the result and the
  error; in both cases the busy flag keeps its value.
\<close>

theorem handleImageChange_frame:
  "handleImageChange url None s = s
   \<and> handleImageChange url (Some f) s =
       s\<lparr>imageFile := Some f, imageUrl := Some (url f), breedInfo := None, error := None\<rparr>
   \<and> isLoading (handleImageChange url x s) = isLoading s"
  by (cases x) (simp_all add: handleImageChange_def)

subsection \<open>The busy flag\<close>

text \<open>While the busy flag is set, a click on the recognize button does nothing.\<close>

lemma busy_blocks_recognize: "isLoading s \<Longrightarrow> fire url s (ClickRecognize fault) = s"
  by (simp add: recognize_disabled_def)

text \<open>A click that starts a recognition sets the flag, before any reader has loaded.\<close>

lemma recognize_sets_busy:
  "imageFile s = Some f \<Longrightarrow> \<not> isLoading s \<Longrightarrow>
   isLoading (fire url s (ClickRecognize None)) \<and>
   readers (fire url s (ClickRecognize None)) = readers s @ [f] \<and>
   invocations (fire url s (ClickRecognize None)) = invocations s"
  by (simp add: recognize_disabled_def handleRecognize_def Let_def)

lemma length_remove_nth: "i < length xs \<Longrightarrow> length (remove_nth i xs) = length xs - 1"
  by (auto simp: remove_nth_def)

lemma outstanding_reader_onload:
  "outstanding (reader_onload i d s) = outstanding s"
  by (cases "i < length (readers s)")
    (auto simp: reader_onload_def outstanding_def length_remove_nth)

lemma outstanding_reader_onerror:
  "outstanding (reader_onerror i s) \<le> outstanding s"
  by (simp add: reader_onerror_def outstanding_def length_remove_nth)

lemma outstanding_reader_onload_resume:
  "outstanding (reader_onload_resume i r s) \<le> outstanding s"
  by (simp add: reader_onload_resume_def outstanding_def length_remove_nth Let_def)

lemma busy_reader_onerror:
  "outstanding s \<le> 1 \<Longrightarrow> isLoading s \<or> outstanding s = 0 \<Longrightarrow>
   isLoading (reader_onerror i s) \<or> outstanding (reader_onerror i s) = 0"
  by (cases "i < length (readers s)")
    (simp_all add: reader_onerror_def outstanding_def length_remove_nth del: length_0_conv)

lemma busy_reader_onload_resume:
  "outstanding s \<le> 1 \<Longrightarrow> isLoading s \<or> outstanding s = 0 \<Longrightarrow>
   isLoading (reader_onload_resume i r s) \<or> outstanding (reader_onload_resume i r s) = 0"
  by (cases "i < length (invocations s)")
    (simp_all add: reader_onload_resume_def outstanding_def length_remove_nth Let_def
      del: length_0_conv)

text \<open>Every event but a click on the clear button keeps recognitions from overlapping.\<close>

lemma gated_fire: "gated s \<Longrightarrow> e \<noteq> ClickClear \<Longrightarrow> gated (fire url s e)"
proof (cases e)
  case (ImageChange f)
  assume "gated s"
  then show ?thesis
    by (cases f) (simp_all add: ImageChange gated_def handleImageChange_def outstanding_def)
next
  case (ClickRecognize fault)
  assume "gated s"
  then show ?thesis
    by (auto simp: ClickRecognize gated_def outstanding_def handleRecognize_def
        recognize_disabled_def Let_def split: option.splits thrown.splits)
next
  case ClickClear
  assume "e \<noteq> ClickClear"
  with ClickClear show ?thesis by simp
next
  case (ReaderLoaded i d)
  assume "gated s"
  then show ?thesis
    by (simp add: ReaderLoaded gated_def outstanding_reader_onload)
      (simp add: reader_onload_def)
next
  case (ReaderFailed i)
  assume "gated s"
  then have a: "outstanding s \<le> 1" and b: "isLoading s \<or> outstanding s = 0"
    by (auto simp: gated_def)
  from a have "outstanding (reader_onerror i s) \<le> 1"
    using outstanding_reader_onerror [of i s] by linarith
  with busy_reader_onerror [OF a b, of i] show ?thesis
    by (auto simp: ReaderFailed gated_def)
next
  case (RecognizeSettled i r)
  assume "gated s"
  then have a: "outstanding s \<le> 1" and b: "isLoading s \<or> outstanding s = 0"
    by (auto simp: gated_def)
  from a have "outstanding (reader_onload_resume i r s) \<le> 1"
    using outstanding_reader_onload_resume [of i r s] by linarith
  with busy_reader_onload_resume [OF a b, of i r] show ?thesis
    by (auto simp: RecognizeSettled gated_def)
qed

lemma gated_initial: "gated initial"
  by (simp add: gated_def initial_def outstanding_def)

lemma gated_run: "gated s \<Longrightarrow> ClickClear \<notin> set events \<Longrightarrow> gated (run url events s)"
  by (induction events arbitrary: s) (auto simp: run_def gated_fire)

text \<open>In a session where the clear button is never clicked, at most one recognition is
  under way at any time.\<close>

lemma no_overlap_without_clear:
  "ClickClear \<notin> set events \<Longrightarrow> outstanding (run url events initial) \<le> 1"
  using gated_run [OF gated_initial, of events url] by (simp add: gated_def)

text \<open>
  C9. The busy flag does not keep recognitions from overlapping. The user selects a file
  and clicks the recognize button; the reader loads and the adapter is invoked. A click on
  the clear button then clears the busy flag while that invocation is outstanding. The
  user selects another file and clicks the recognize button again, which is enabled; the
  second reader loads and the adapter is invoked a second time, with the first invocation
  still outstanding.
\<close>

theorem clear_allows_overlap:
  "invocations
     (run blob_url
        [ImageChange (Some cow_png), ClickRecognize None,
         ReaderLoaded 0 ''data:image/png;base64,aGk='', ClickClear] initial)
     = [(Some ''aGk='', ''image/png'')]
   \<and> isLoading
     (run blob_url
        [ImageChange (Some cow_png), ClickRecognize None,
         ReaderLoaded 0 ''data:image/png;base64,aGk='', ClickClear] initial) = False
   \<and> invocations
     (run blob_url
        [ImageChange (Some cow_png), ClickRecognize None,
         ReaderLoaded 0 ''data:image/png;base64,aGk='', ClickClear,
         ImageChange (Some calf_jpg), ClickRecognize None,
         ReaderLoaded 0 ''data:image/jpeg;base64,AAAA''] initial)
     = [(Some ''aGk='', ''image/png''), (Some ''AAAA'', ''image/jpeg'')]"
  by (simp add: run_def initial_def handleImageChange_def handleRecognize_def handleReset_def
      reader_onload_def recognize_disabled_def clear_shown_def remove_nth_def base64_of_def
      cow_png_def calf_jpg_def blob_url_def Let_def)

end
